theory Spec2Isabelle
  imports Main
begin

unbundle bit_operations_syntax

section \<open>The OCALL gateway of the Linux-SGX PAL (enclave\_ocalls.c)\<close>

text \<open>
  The enclave calls the untrusted runtime through the wrappers \<open>ocall_*\<close> of
  \<^verbatim>\<open>Pal/src/host/Linux-SGX/enclave_ocalls.c\<close>. Each wrapper builds an argument block
  \<open>ms\<close> on the untrusted stack, hands it to the host (\<open>sgx_ocall\<close>, or the exitless RPC
  queue in \<open>sgx_exitless_ocall\<close>), and reads the results back.

  The embedding is by explicit state passing. The host is not trusted: what it returns and
  what it leaves in the argument block are given by an arbitrary function \<open>host\<close> of the
  history of the run. Everything the enclave does that is visible outside a wrapper is
  appended to the \<open>trace\<close>.
\<close>

subsection \<open>Data\<close>

type_synonym addr = nat

datatype ocall_code =
    OCALL_EXIT | OCALL_MMAP_UNTRUSTED | OCALL_MUNMAP_UNTRUSTED | OCALL_CLOSE
  | OCALL_READ | OCALL_WRITE | OCALL_GETDENTS | OCALL_RESUME_THREAD | OCALL_CLONE_THREAD
  | OCALL_FUTEX | OCALL_LISTEN | OCALL_ACCEPT | OCALL_CONNECT | OCALL_RECV | OCALL_SEND
  | OCALL_SLEEP | OCALL_GET_ATTESTATION

text \<open>\<open>sgx_attestation_t\<close>: the four buffers the host returns, with their lengths.\<close>

record sgx_attestation =
  quote :: addr
  quote_len :: nat
  ias_report :: addr
  ias_report_len :: nat
  ias_sig :: addr
  ias_sig_len :: nat
  ias_certs :: addr
  ias_certs_len :: nat

text \<open>
  The argument block. The structs \<open>ms_ocall_*_t\<close> are declared in \<^verbatim>\<open>ocall_types.h\<close>,
  which is not among the sources; the record has the fields that \<^verbatim>\<open>enclave_ocalls.c\<close>
  reads and writes in the wrappers modelled here, under the names used there. A pointer is
  an address, \<open>0\<close> is \<open>NULL\<close>.
\<close>

record ms_t =
  ms_exitcode :: int
  ms_is_exitgroup :: int
  ms_fd :: int
  ms_offset :: nat
  ms_size :: nat
  ms_prot :: nat
  ms_mem :: addr
  ms_count :: nat
  ms_buf :: addr
  ms_dirp :: addr
  ms_futex :: addr
  ms_op :: int
  ms_val :: int
  ms_timeout_us :: int
  ms_domain :: int
  ms_type :: int
  ms_protocol :: int
  ms_sockfd :: int
  ms_addr :: addr
  ms_addrlen :: nat
  ms_bind_addr :: addr
  ms_bind_addrlen :: nat
  ms_sockopt :: nat
  ms_control :: addr
  ms_controllen :: nat
  ms_microsec :: nat
  ms_subkey :: addr
  ms_linkable :: bool
  ms_attestation :: sgx_attestation

text \<open>
  The second argument of \<open>sgx_ocall\<close> is a \<open>void*\<close>: the address of an argument block
  (\<open>Ms\<close>, given by its contents), or a bare pointer (\<open>Ptr\<close>) as in \<open>ocall_resume_thread\<close>.
\<close>

datatype ocall_arg = Ms ms_t | Ptr addr

text \<open>
  Events of a run: a request served by an enclave exit (\<open>Direct\<close>) or by an RPC worker
  (\<open>Exitless\<close>), each with the host's answer (return value and the contents it leaves in
  the argument block); a copy into enclave memory (destination, capacity, source, bytes);
  a copy into host memory (destination, source, bytes).
\<close>

datatype event =
    Direct ocall_code ocall_arg int ms_t
  | Exitless ocall_code ocall_arg int ms_t
  | Copy_to_enclave addr nat addr nat
  | Copy_to_host addr addr nat

text \<open>The C types whose size and alignment the gateway asks for.\<close>

datatype ctype = T_rpc_request | T_ms ocall_code

text \<open>
  What the other side does with one request of the exitless queue: whether \<open>rpc_enqueue\<close>
  finds the queue full, whether \<open>spinlock_lock_timeout\<close> times out, and the values that
  the successive compare-and-swap attempts of the enclave thread find in the lock word of
  the request (the word is in host memory and written by the worker). After the last
  listed value the worker has unlocked: \<open>SPINLOCK_UNLOCKED\<close> is found.
\<close>

record rpc_schedule =
  queue_full :: bool
  spin_timedout :: bool
  lock_obs :: "int list"

text \<open>
  The state of a run: the bounds of the enclave; the untrusted stack (its pointer, the
  saved top that \<open>sgx_reset_ustack\<close> goes back to, and its lower limit); the sizes and
  alignments of the C types and the granularity of \<open>ALLOC_ALIGNUP\<close>; whether there is an
  RPC queue; the host and the RPC workers; the history; and whether the thread has stored
  through a null pointer.
\<close>

record state =
  enclave_base :: addr
  enclave_top :: addr
  ustack :: addr
  ustack_top :: addr
  ustack_limit :: addr
  sizeof :: "ctype \<Rightarrow> nat"
  alignof :: "ctype \<Rightarrow> nat"
  alloc_align :: nat
  g_rpc_queue :: bool
  host :: "event list \<Rightarrow> ocall_code \<Rightarrow> ocall_arg \<Rightarrow> int \<times> ms_t"
  rpc :: "event list \<Rightarrow> rpc_schedule"
  trace :: "event list"
  faulted :: bool

subsection \<open>Constants\<close>

definition EPERM :: int where "EPERM = 1"
definition EINTR :: int where "EINTR = 4"
definition EAGAIN :: int where "EAGAIN = 11"
definition EACCES :: int where "EACCES = 13"
definition EINVAL :: int where "EINVAL = 22"

definition SPINLOCK_UNLOCKED :: int where "SPINLOCK_UNLOCKED = 0"
definition SPINLOCK_LOCKED_NO_WAITERS :: int where "SPINLOCK_LOCKED_NO_WAITERS = 1"
definition SPINLOCK_LOCKED_WITH_WAITERS :: int where "SPINLOCK_LOCKED_WITH_WAITERS = 2"

definition FUTEX_WAIT_PRIVATE :: int where "FUTEX_WAIT_PRIVATE = 128"





definition ALLOC_ALIGNUP :: "state \<Rightarrow> nat \<Rightarrow> nat" where
  "ALLOC_ALIGNUP s n = ((n + alloc_align s - 1) div alloc_align s) * alloc_align s"

text \<open>An argument block as allocated, before the gateway fills it in.\<close>

definition ms_blank :: ms_t where
  "ms_blank = \<lparr> ms_exitcode = 0, ms_is_exitgroup = 0, ms_fd = 0, ms_offset = 0, ms_size = 0,
     ms_prot = 0, ms_mem = 0, ms_count = 0, ms_buf = 0, ms_dirp = 0, ms_futex = 0, ms_op = 0,
     ms_val = 0, ms_timeout_us = 0, ms_domain = 0, ms_type = 0, ms_protocol = 0,
     ms_sockfd = 0, ms_addr = 0, ms_addrlen = 0, ms_bind_addr = 0, ms_bind_addrlen = 0,
     ms_sockopt = 0, ms_control = 0, ms_controllen = 0, ms_microsec = 0, ms_subkey = 0,
     ms_linkable = False,
     ms_attestation = \<lparr> quote = 0, quote_len = 0, ias_report = 0, ias_report_len = 0,
       ias_sig = 0, ias_sig_len = 0, ias_certs = 0, ias_certs_len = 0 \<rparr> \<rparr>"

subsection \<open>Boundary checks and the untrusted stack\<close>

text \<open>
  Modelled from the spec: \<open>sgx_is_completely_within_enclave\<close>,
  \<open>sgx_is_completely_outside_enclave\<close>, \<open>sgx_copy_to_enclave\<close>, \<open>sgx_copy_ptr_to_enclave\<close>,
  \<open>sgx_alloc_on_ustack\<close>, \<open>sgx_alloc_on_ustack_aligned\<close>, \<open>sgx_copy_to_ustack\<close> and
  \<open>sgx_reset_ustack\<close> are defined in \<^verbatim>\<open>enclave_framework.c\<close>, which is not among the
  sources. They follow sections 4.1 and 4.2 of the specification: a region is entirely
  inside, entirely outside, or straddles; a copy into the enclave returns 0 unless the
  destination is entirely inside, the source entirely outside and the size within the
  capacity; the untrusted stack is a bump allocator in host memory that returns \<open>NULL\<close>
  when the remaining space is insufficient, and \<open>reset\<close> puts the pointer back to the
  saved top.
\<close>

definition sgx_is_completely_within_enclave :: "addr \<Rightarrow> nat \<Rightarrow> state \<Rightarrow> bool" where
  "sgx_is_completely_within_enclave p n s = (enclave_base s \<le> p \<and> p + n \<le> enclave_top s)"

definition sgx_is_completely_outside_enclave :: "addr \<Rightarrow> nat \<Rightarrow> state \<Rightarrow> bool" where
  "sgx_is_completely_outside_enclave p n s = (p + n \<le> enclave_base s \<or> enclave_top s \<le> p)"


definition sgx_copy_to_enclave :: "addr \<Rightarrow> nat \<Rightarrow> addr \<Rightarrow> nat \<Rightarrow> state \<Rightarrow> nat \<times> state" where
  "sgx_copy_to_enclave ptr maxsize uptr usize s =
     (if usize \<le> maxsize \<and> sgx_is_completely_outside_enclave uptr usize s
         \<and> sgx_is_completely_within_enclave ptr usize s
      then (usize, s\<lparr>trace := trace s @ [Copy_to_enclave ptr maxsize uptr usize]\<rparr>)
      else (0, s))"

definition sgx_copy_ptr_to_enclave :: "addr \<Rightarrow> addr \<Rightarrow> nat \<Rightarrow> state \<Rightarrow> bool \<times> addr" where
  \<comment> \<open>\<open>old\<close> is the value of the enclave variable before; the result is its value after\<close>
  "sgx_copy_ptr_to_enclave old uptr sz s =
     (if sgx_is_completely_outside_enclave uptr sz s then (True, uptr) else (False, old))"

definition sgx_alloc_on_ustack_aligned :: "nat \<Rightarrow> nat \<Rightarrow> state \<Rightarrow> addr \<times> state" where
  "sgx_alloc_on_ustack_aligned sz alignment s =
     (if ustack s < sz then (0, s)
      else let p = (ustack s - sz) - (ustack s - sz) mod alignment in
        if p < ustack_limit s \<or> \<not> sgx_is_completely_outside_enclave p sz s then (0, s)
        else (p, s\<lparr>ustack := p\<rparr>))"

definition sgx_alloc_on_ustack :: "nat \<Rightarrow> state \<Rightarrow> addr \<times> state" where
  "sgx_alloc_on_ustack sz s = sgx_alloc_on_ustack_aligned sz 1 s"


definition sgx_reset_ustack :: "state \<Rightarrow> state" where
  "sgx_reset_ustack s = s\<lparr>ustack := ustack_top s\<rparr>"

text \<open>
  A store through a pointer that the code has not tested. The contents of host memory are
  not part of the state, so a store through a valid pointer changes nothing here; a store
  through \<open>NULL\<close> is a fault of the enclave thread, and it is recorded in \<open>faulted\<close>. The
  functions stay total: a fault does not stop the model, it marks the run, and what is
  said about a call that completes is said of the runs that leave the flag unset.
\<close>

definition store_via :: "addr \<Rightarrow> state \<Rightarrow> state" where
  "store_via p s = (if p = 0 then s\<lparr>faulted := True\<rparr> else s)"


subsection \<open>Dispatch\<close>

text \<open>
  \<open>sgx_ocall\<close> leaves the enclave; the host answers with a return value and the contents of
  the argument block after the call. (It is an assembly routine outside this file; the
  host side is the adversary.)
\<close>

definition sgx_ocall :: "ocall_code \<Rightarrow> ocall_arg \<Rightarrow> state \<Rightarrow> (int \<times> ms_t) \<times> state" where
  "sgx_ocall code ms s =
     (let (ret, ms') = host s (trace s) code ms in
      ((ret, ms'), s\<lparr>trace := trace s @ [Direct code ms ret ms']\<rparr>))"

text \<open>
  \<open>spinlock_cmpxchg(lock, &c, newval)\<close> on a lock word that holds \<open>v\<close>: succeeds (and stores
  \<open>newval\<close>) when \<open>v = c\<close>, and else stores \<open>v\<close> into \<open>c\<close>. The value found is the next one
  of the schedule; what the word holds afterwards is again up to the schedule. The result
  is the success flag, the new \<open>c\<close> and the rest of the schedule.
\<close>

definition spinlock_cmpxchg :: "int \<Rightarrow> int \<Rightarrow> int list \<Rightarrow> bool \<times> int \<times> int list" where
  "spinlock_cmpxchg c newval obs =
     (let v = (case obs of [] \<Rightarrow> SPINLOCK_UNLOCKED | x # _ \<Rightarrow> x) in
      (v = c, (if v = c then c else v), tl obs))"

text \<open>
  The \<open>do ... while\<close> loop of \<open>sgx_exitless_ocall\<close> that waits on the futex; \<open>ms\<close> is the
  futex argument block. It returns \<open>True\<close> when the loop is left by \<open>return -EPERM\<close>.
\<close>

function futex_wait_loop :: "ms_t \<Rightarrow> int \<Rightarrow> int list \<Rightarrow> state \<Rightarrow> bool \<times> state" where
  "futex_wait_loop ms c obs s =
     (let (moved, c1, obs1) =
            (if c = SPINLOCK_LOCKED_WITH_WAITERS then (True, c, obs)
             else spinlock_cmpxchg c SPINLOCK_LOCKED_WITH_WAITERS obs);
          ((ret, ms1), s1) =
            (if moved
             then sgx_ocall OCALL_FUTEX (Ms (ms\<lparr>ms_val := SPINLOCK_LOCKED_WITH_WAITERS\<rparr>)) s
             else ((0, ms), s))
      in if moved \<and> ret < 0 \<and> ret \<noteq> - EAGAIN then (True, s1)
         else let (unlocked, c2, obs2) =
                    spinlock_cmpxchg SPINLOCK_UNLOCKED SPINLOCK_LOCKED_WITH_WAITERS obs1 in
              if unlocked then (False, s1)
              else futex_wait_loop ms1 c2 obs2 s1)"
  by pat_completeness auto
termination
  by (relation "measure (\<lambda>(ms, c, obs, s). length obs)")
     (auto simp: spinlock_cmpxchg_def split: if_splits list.splits)

text \<open>
  \<open>sgx_exitless_ocall\<close>. On the exitless path an RPC worker serves the request: it is the
  host that computes the result and the contents of the argument block, as in \<open>sgx_ocall\<close>,
  and \<open>req->result\<close> is what the enclave thread reads once the lock is released. The result
  is the return value together with the contents of the argument block after the call.
  The request \<open>req\<close> and the futex block are filled in without a test of the pointer
  (\<open>req->ocall_index = code\<close>, \<open>ms->ms_futex = ...\<close>): \<open>store_via\<close>.
\<close>

definition sgx_exitless_ocall :: "ocall_code \<Rightarrow> ocall_arg \<Rightarrow> state \<Rightarrow> (int \<times> ms_t) \<times> state" where
  "sgx_exitless_ocall code ms s =
     (if \<not> g_rpc_queue s then sgx_ocall code ms s
      else
        let (req, s0) = sgx_alloc_on_ustack_aligned
                          (sizeof s T_rpc_request) (alignof s T_rpc_request) s;
            s1 = store_via req s0;
            sched = rpc s1 (trace s1)
        in if queue_full sched then sgx_ocall code ms s1
           else
             let (result, ms') = host s1 (trace s1) code ms;
                 s2 = s1\<lparr>trace := trace s1 @ [Exitless code ms result ms']\<rparr>
             in if spin_timedout sched then
                  let (ok, c, obs) = spinlock_cmpxchg SPINLOCK_UNLOCKED
                                       SPINLOCK_LOCKED_NO_WAITERS (lock_obs sched)
                  in if \<not> ok then
                       let (fms, s3) = sgx_alloc_on_ustack_aligned
                                         (sizeof s2 (T_ms OCALL_FUTEX))
                                         (alignof s2 (T_ms OCALL_FUTEX)) s2;
                           (failed, s4) = futex_wait_loop
                                            (ms_blank\<lparr>ms_futex := req,
                                               ms_op := FUTEX_WAIT_PRIVATE,
                                               ms_timeout_us := - 1\<rparr>) c obs
                                            (store_via fms s3)
                       in if failed then ((- EPERM, ms'), s4) else ((result, ms'), s4)
                     else ((result, ms'), s2)
                else ((result, ms'), s2))"

subsection \<open>The wrappers\<close>

text \<open>
  \<open>ocall_exit\<close> is \<open>noreturn\<close>, and its loop is \<open>while (true)\<close>. The model runs a given
  number of rounds of the loop: \<open>Looping s\<close> is "still in the loop after these rounds, in
  state \<open>s\<close>", \<open>Returned s\<close> would be a return to the caller. The argument block is in host
  memory: each round hands the host the block as the round before has left it. The block
  is filled in without a test of the pointer.
\<close>

datatype exit_run = Looping state | Returned state

primrec ocall_exit_loop :: "nat \<Rightarrow> ms_t \<Rightarrow> state \<Rightarrow> exit_run" where
  "ocall_exit_loop 0 ms s = Looping s"
| "ocall_exit_loop (Suc n) ms s =
     (if True
      then ocall_exit_loop n (snd (fst (sgx_ocall OCALL_EXIT (Ms ms) s)))
             (snd (sgx_ocall OCALL_EXIT (Ms ms) s))
      else Returned s)"

definition ocall_exit_ms :: "int \<Rightarrow> int \<Rightarrow> ms_t" where
  "ocall_exit_ms exitcode is_exitgroup =
     ms_blank\<lparr>ms_exitcode := exitcode, ms_is_exitgroup := is_exitgroup\<rparr>"

definition ocall_exit :: "nat \<Rightarrow> int \<Rightarrow> int \<Rightarrow> state \<Rightarrow> exit_run" where
  "ocall_exit rounds exitcode is_exitgroup s =
     (let (ms, s1) = sgx_alloc_on_ustack_aligned
                       (sizeof s (T_ms OCALL_EXIT)) (alignof s (T_ms OCALL_EXIT)) s
      in ocall_exit_loop rounds (ocall_exit_ms exitcode is_exitgroup) (store_via ms s1))"

text \<open>
  \<open>void ** mem\<close> is given by the value of \<open>*mem\<close> before the call; its value after the
  call is returned with the return code.
\<close>

definition ocall_mmap_untrusted ::
  "int \<Rightarrow> nat \<Rightarrow> nat \<Rightarrow> nat \<Rightarrow> addr \<Rightarrow> state \<Rightarrow> (int \<times> addr) \<times> state" where
  "ocall_mmap_untrusted fd offset sz prot mem s =
     (let (ms, s1) = sgx_alloc_on_ustack_aligned
                       (sizeof s (T_ms OCALL_MMAP_UNTRUSTED))
                       (alignof s (T_ms OCALL_MMAP_UNTRUSTED)) s
      in if ms = 0 then ((- EPERM, mem), sgx_reset_ustack s1)
         else
           let ((retval, ms'), s2) =
                 sgx_exitless_ocall OCALL_MMAP_UNTRUSTED
                   (Ms (ms_blank\<lparr>ms_fd := fd, ms_offset := offset, ms_size := sz,
                          ms_prot := prot\<rparr>)) s1
           in if retval = 0 then
                let (ok, mem') = sgx_copy_ptr_to_enclave mem (ms_mem ms') sz s2
                in if \<not> ok then ((- EPERM, mem'), sgx_reset_ustack s2)
                   else ((retval, mem'), sgx_reset_ustack s2)
              else ((retval, mem), sgx_reset_ustack s2))"

definition ocall_munmap_untrusted :: "addr \<Rightarrow> nat \<Rightarrow> state \<Rightarrow> int \<times> state" where
  "ocall_munmap_untrusted mem sz s =
     (if \<not> sgx_is_completely_outside_enclave mem sz s then (- EINVAL, sgx_reset_ustack s)
      else
        let (ms, s1) = sgx_alloc_on_ustack_aligned
                         (sizeof s (T_ms OCALL_MUNMAP_UNTRUSTED))
                         (alignof s (T_ms OCALL_MUNMAP_UNTRUSTED)) s
        in if ms = 0 then (- EPERM, sgx_reset_ustack s1)
           else
             let ((retval, ms'), s2) =
                   sgx_exitless_ocall OCALL_MUNMAP_UNTRUSTED
                     (Ms (ms_blank\<lparr>ms_mem := mem, ms_size := sz\<rparr>)) s1
             in (retval, sgx_reset_ustack s2))"

definition ocall_close :: "int \<Rightarrow> state \<Rightarrow> int \<times> state" where
  "ocall_close fd s =
     (let (ms, s1) = sgx_alloc_on_ustack_aligned
                       (sizeof s (T_ms OCALL_CLOSE)) (alignof s (T_ms OCALL_CLOSE)) s
      in if ms = 0 then (- EPERM, sgx_reset_ustack s1)
         else
           let ((retval, ms'), s2) =
                 sgx_exitless_ocall OCALL_CLOSE (Ms (ms_blank\<lparr>ms_fd := fd\<rparr>)) s1
           in (retval, sgx_reset_ustack s2))"

definition ocall_resume_thread :: "addr \<Rightarrow> state \<Rightarrow> int \<times> state" where
  "ocall_resume_thread tcs s =
     (let ((retval, ms'), s1) = sgx_exitless_ocall OCALL_RESUME_THREAD (Ptr tcs) s
      in (retval, s1))"

definition ocall_clone_thread :: "state \<Rightarrow> int \<times> state" where
  "ocall_clone_thread s =
     (let dummy = 0;
          ((retval, ms'), s1) = sgx_exitless_ocall OCALL_CLONE_THREAD (Ptr dummy) s
      in (retval, s1))"

definition ocall_futex :: "addr \<Rightarrow> int \<Rightarrow> int \<Rightarrow> int \<Rightarrow> state \<Rightarrow> int \<times> state" where
  "ocall_futex futex op val timeout_us s =
     (if \<not> sgx_is_completely_outside_enclave futex 4 s then (- EINVAL, sgx_reset_ustack s)
      else
        let (ms, s1) = sgx_alloc_on_ustack_aligned
                         (sizeof s (T_ms OCALL_FUTEX)) (alignof s (T_ms OCALL_FUTEX)) s
        in if ms = 0 then (- EPERM, sgx_reset_ustack s1)
           else
             let ((retval, ms'), s2) =
                   sgx_exitless_ocall OCALL_FUTEX
                     (Ms (ms_blank\<lparr>ms_futex := futex, ms_op := op, ms_val := val,
                            ms_timeout_us := timeout_us\<rparr>)) s1
             in (retval, sgx_reset_ustack s2))"

text \<open>
  \<open>unsigned long * microsec\<close>: \<open>None\<close> is the null pointer, \<open>Some v\<close> a pointer to a cell
  that holds \<open>v\<close>; the cell after the call is returned with the return code.
\<close>

definition ocall_sleep :: "nat option \<Rightarrow> state \<Rightarrow> (int \<times> nat option) \<times> state" where
  "ocall_sleep microsec s =
     (let (ms, s1) = sgx_alloc_on_ustack_aligned
                       (sizeof s (T_ms OCALL_SLEEP)) (alignof s (T_ms OCALL_SLEEP)) s
      in if ms = 0 then ((- EPERM, microsec), sgx_reset_ustack s1)
         else
           let ((retval, ms'), s2) =
                 sgx_ocall OCALL_SLEEP
                   (Ms (ms_blank\<lparr>ms_microsec :=
                          (case microsec of None \<Rightarrow> 0 | Some v \<Rightarrow> v)\<rparr>)) s1;
               microsec' =
                 (case microsec of
                    None \<Rightarrow> None
                  | Some v \<Rightarrow>
                      if retval = 0 then Some 0
                      else if retval = - EINTR then Some (ms_microsec ms')
                      else Some v)
           in ((retval, microsec'), sgx_reset_ustack s2))"

text \<open>
  \<open>ocall_read\<close>. \<open>ocall_read_out\<close> is the code at the label \<open>out\<close>. The size passed to
  \<open>sgx_copy_to_enclave\<close> is the positive return value.
\<close>

definition ocall_read_out :: "addr \<Rightarrow> nat \<Rightarrow> int \<Rightarrow> state \<Rightarrow> int \<times> state" where
  "ocall_read_out obuf cnt retval s =
     (let s1 = sgx_reset_ustack s in
      if obuf \<noteq> 0
      then (retval, snd (ocall_munmap_untrusted obuf (ALLOC_ALIGNUP s1 cnt) s1))
      else (retval, s1))"









subsection \<open>Reading a trace\<close>

text \<open>
  \<open>calls code tr\<close> lists the requests with this code that reached the host (by either
  path), each with the host's answer; \<open>copies tr\<close> lists the copies into the enclave
  (destination, capacity, source, bytes); \<open>futex_failed\<close> marks a futex wait of
  \<open>sgx_exitless_ocall\<close> that the host answered with an error other than \<open>EAGAIN\<close>.
\<close>

fun call_of :: "ocall_code \<Rightarrow> event \<Rightarrow> (ocall_arg \<times> int \<times> ms_t) list" where
  "call_of code (Direct c a r m) = (if c = code then [(a, r, m)] else [])"
| "call_of code (Exitless c a r m) = (if c = code then [(a, r, m)] else [])"
| "call_of code _ = []"

definition calls :: "ocall_code \<Rightarrow> event list \<Rightarrow> (ocall_arg \<times> int \<times> ms_t) list" where
  "calls code tr = concat (map (call_of code) tr)"

fun copy_of :: "event \<Rightarrow> (addr \<times> nat \<times> addr \<times> nat) list" where
  "copy_of (Copy_to_enclave dst cap src n) = [(dst, cap, src, n)]"
| "copy_of _ = []"

definition copies :: "event list \<Rightarrow> (addr \<times> nat \<times> addr \<times> nat) list" where
  "copies tr = concat (map copy_of tr)"

text \<open>
  What a call has added: \<open>new_events\<close>, \<open>new_calls\<close> and \<open>new_copies\<close> are the events, the
  requests and the copies of the state after the call that the state before did not have.
  \<open>exit_event\<close> is the enclave exit that a request of \<open>OCALL_EXIT\<close> is in the history.
  \<open>exit_chain a cs\<close>: the requests \<open>cs\<close> start with the argument \<open>a\<close>, and each next one
  carries the block that the host has left at the one before.
\<close>

definition new_events :: "state \<Rightarrow> state \<Rightarrow> event list" where
  "new_events s s' = drop (length (trace s)) (trace s')"



fun exit_event :: "ocall_arg \<times> int \<times> ms_t \<Rightarrow> event" where
  "exit_event (a, r, m) = Direct OCALL_EXIT a r m"

fun exit_chain :: "ocall_arg \<Rightarrow> (ocall_arg \<times> int \<times> ms_t) list \<Rightarrow> bool" where
  "exit_chain a [] = True"
| "exit_chain a ((a', r, m) # cs) = (a' = a \<and> exit_chain (Ms m) cs)"

fun is_futex_wait :: "event \<Rightarrow> bool" where
  "is_futex_wait (Direct c a r m) = (c = OCALL_FUTEX)"
| "is_futex_wait _ = False"

fun futex_failed :: "event \<Rightarrow> bool" where
  "futex_failed (Direct c a r m) = (c = OCALL_FUTEX \<and> r < 0 \<and> r \<noteq> - EAGAIN)"
| "futex_failed _ = False"

subsection \<open>Concrete runs\<close>

text \<open>
  A host that answers every request with 0 and leaves the argument block as it was, and
  one that answers a futex wait with \<open>-EINTR\<close>. \<open>st0\<close> is an enclave at 1MB..2MB with a 2MB
  untrusted stack below 8MB and no RPC queue; \<open>st_rpc\<close> has a queue with room, and the
  spin lock does not time out; in \<open>st_wait\<close> the spin times out, the lock is found held
  and the futex wait is interrupted; in \<open>st_spin\<close> the host is the same and the spin sees
  the lock released; in \<open>st_full\<close> the queue is full.
\<close>

definition host_ok :: "event list \<Rightarrow> ocall_code \<Rightarrow> ocall_arg \<Rightarrow> int \<times> ms_t" where
  "host_ok tr code arg = (0, case arg of Ms m \<Rightarrow> m | Ptr p \<Rightarrow> ms_blank)"

text \<open>A host that answers \<open>r\<close> and leaves \<open>f\<close> of the argument block.\<close>

definition host_const ::
  "int \<Rightarrow> (ms_t \<Rightarrow> ms_t) \<Rightarrow> event list \<Rightarrow> ocall_code \<Rightarrow> ocall_arg \<Rightarrow> int \<times> ms_t" where
  "host_const r f tr code arg = (r, f (case arg of Ms m \<Rightarrow> m | Ptr p \<Rightarrow> ms_blank))"

definition host_eintr :: "event list \<Rightarrow> ocall_code \<Rightarrow> ocall_arg \<Rightarrow> int \<times> ms_t" where
  "host_eintr tr code arg =
     (if code = OCALL_FUTEX then - EINTR else 0, case arg of Ms m \<Rightarrow> m | Ptr p \<Rightarrow> ms_blank)"

definition st0 :: state where
  "st0 = \<lparr> enclave_base = 1048576, enclave_top = 2097152, ustack = 8388608,
     ustack_top = 8388608, ustack_limit = 6291456, sizeof = (\<lambda>t. 64), alignof = (\<lambda>t. 8),
     alloc_align = 4096, g_rpc_queue = False, host = host_ok,
     rpc = (\<lambda>tr. \<lparr> queue_full = False, spin_timedout = False, lock_obs = [] \<rparr>),
     trace = [], faulted = False \<rparr>"

definition st_rpc :: state where
  "st_rpc = st0\<lparr>g_rpc_queue := True\<rparr>"

definition st_wait :: state where
  "st_wait = st0\<lparr>g_rpc_queue := True, host := host_eintr,
     rpc := (\<lambda>tr. \<lparr> queue_full = False, spin_timedout = True, lock_obs = [1, 1] \<rparr>)\<rparr>"

definition st_spin :: state where
  "st_spin = st0\<lparr>g_rpc_queue := True, host := host_eintr\<rparr>"

definition st_full :: state where
  "st_full = st0\<lparr>g_rpc_queue := True, host := host_eintr,
     rpc := (\<lambda>tr. \<lparr> queue_full = True, spin_timedout = False, lock_obs = [] \<rparr>)\<rparr>"

text \<open>
  Hosts for \<open>ocall_sleep\<close>: sleeping to the end, interrupted with 3 microseconds left,
  and failing.
\<close>

definition st_sleep_ok :: state where
  "st_sleep_ok = st0\<lparr>host := host_const 0 (\<lambda>m. m)\<rparr>"

definition st_sleep_eintr :: state where
  "st_sleep_eintr = st0\<lparr>host := host_const (- EINTR) (\<lambda>m. m\<lparr>ms_microsec := 3\<rparr>)\<rparr>"

definition st_sleep_einval :: state where
  "st_sleep_einval = st0\<lparr>host := host_const (- EINVAL) (\<lambda>m. m)\<rparr>"









section \<open>Properties\<close>

declare futex_wait_loop.simps [simp del]

subsection \<open>Dispatch\<close>

lemma sgx_ocall_state:
  "snd (sgx_ocall code ms s) =
     s\<lparr>trace := trace s @ [Direct code ms (fst (host s (trace s) code ms))
                            (snd (host s (trace s) code ms))]\<rparr>"
  by (simp add: sgx_ocall_def split_def Let_def)

lemma sgx_ocall_result:
  "fst (sgx_ocall code ms s) = host s (trace s) code ms"
  by (simp add: sgx_ocall_def split_def Let_def)

lemma spinlock_cmpxchg_length:
  "\<not> fst (spinlock_cmpxchg SPINLOCK_UNLOCKED n obs) \<Longrightarrow>
     length (snd (snd (spinlock_cmpxchg SPINLOCK_UNLOCKED n obs))) < length obs"
  by (cases obs) (simp_all add: spinlock_cmpxchg_def)

lemma spinlock_cmpxchg_length_le:
  "length (snd (snd (spinlock_cmpxchg c n obs))) \<le> length obs"
  by (cases obs) (simp_all add: spinlock_cmpxchg_def)

text \<open>
  The futex loop only appends futex waits to the trace, and when it is left by
  \<open>return -EPERM\<close> the last of them failed.
\<close>

lemma futex_wait_loop_state:
  "\<exists>evs. snd (futex_wait_loop ms c obs s) = s\<lparr>trace := trace s @ evs\<rparr>
      \<and> list_all is_futex_wait evs
      \<and> (fst (futex_wait_loop ms c obs s) \<longrightarrow> evs \<noteq> [] \<and> futex_failed (last evs))
      \<and> (\<not> fst (futex_wait_loop ms c obs s) \<longrightarrow> list_all (\<lambda>e. \<not> futex_failed e) evs)"
proof (induction "length obs" arbitrary: ms c obs s rule: less_induct)
  case less
  define r1 where "r1 = (if c = SPINLOCK_LOCKED_WITH_WAITERS then (True, c, obs)
             else spinlock_cmpxchg c SPINLOCK_LOCKED_WITH_WAITERS obs)"
  define moved where "moved = fst r1"
  define obs1 where "obs1 = snd (snd r1)"
  define fms where "fms = Ms (ms\<lparr>ms_val := SPINLOCK_LOCKED_WITH_WAITERS\<rparr>)"
  define r2 where "r2 = (if moved then sgx_ocall OCALL_FUTEX fms s else ((0, ms), s))"
  define ret where "ret = fst (fst r2)"
  define ms1 where "ms1 = snd (fst r2)"
  define s1 where "s1 = snd r2"
  define r3 where "r3 = spinlock_cmpxchg SPINLOCK_UNLOCKED SPINLOCK_LOCKED_WITH_WAITERS obs1"
  define fatal where "fatal \<longleftrightarrow> moved \<and> ret < 0 \<and> ret \<noteq> - EAGAIN"
  have unf: "futex_wait_loop ms c obs s =
     (if fatal then (True, s1)
      else if fst r3 then (False, s1)
      else futex_wait_loop ms1 (fst (snd r3)) (snd (snd r3)) s1)"
    by (subst futex_wait_loop.simps)
       (simp only: Let_def split_def r1_def moved_def obs1_def r2_def ret_def ms1_def
          s1_def r3_def fms_def fatal_def)
  have s1: "\<exists>evs. s1 = s\<lparr>trace := trace s @ evs\<rparr> \<and> list_all is_futex_wait evs
              \<and> (fatal \<longrightarrow> evs \<noteq> [] \<and> futex_failed (last evs))
              \<and> (\<not> fatal \<longrightarrow> list_all (\<lambda>e. \<not> futex_failed e) evs)"
  proof (cases moved)
    case True
    then show ?thesis
      by (simp add: s1_def r2_def sgx_ocall_state fatal_def ret_def sgx_ocall_result)
         (rule exI[of _ "[Direct OCALL_FUTEX fms (fst (host s (trace s) OCALL_FUTEX fms))
                 (snd (host s (trace s) OCALL_FUTEX fms))]"], simp)
  next
    case False
    then show ?thesis
      by (simp add: s1_def r2_def fatal_def) (rule exI[of _ "[]"], simp)
  qed
  then obtain evs1 where evs1: "s1 = s\<lparr>trace := trace s @ evs1\<rparr>"
      "list_all is_futex_wait evs1" "fatal \<longrightarrow> evs1 \<noteq> [] \<and> futex_failed (last evs1)"
      "\<not> fatal \<longrightarrow> list_all (\<lambda>e. \<not> futex_failed e) evs1"
    by blast
  have len1: "length obs1 \<le> length obs"
    by (simp add: obs1_def r1_def spinlock_cmpxchg_length_le)
  show ?case
  proof (cases "fatal \<or> fst r3")
    case True
    then have "futex_wait_loop ms c obs s = (fatal, s1)"
      by (auto simp: unf)
    then show ?thesis using evs1 by auto
  next
    case False
    then have "length (snd (snd r3)) < length obs"
      using spinlock_cmpxchg_length[of SPINLOCK_LOCKED_WITH_WAITERS obs1] len1
      by (simp add: r3_def)
    from less[OF this, of ms1 "fst (snd r3)" s1]
    obtain evs2 where evs2:
      "snd (futex_wait_loop ms1 (fst (snd r3)) (snd (snd r3)) s1) = s1\<lparr>trace := trace s1 @ evs2\<rparr>"
      "list_all is_futex_wait evs2"
      "fst (futex_wait_loop ms1 (fst (snd r3)) (snd (snd r3)) s1)
         \<longrightarrow> evs2 \<noteq> [] \<and> futex_failed (last evs2)"
      "\<not> fst (futex_wait_loop ms1 (fst (snd r3)) (snd (snd r3)) s1)
         \<longrightarrow> list_all (\<lambda>e. \<not> futex_failed e) evs2"
      by blast
    from False have c1: "\<not> fatal" and c2: "\<not> fst r3"
      by blast+
    have rec: "futex_wait_loop ms c obs s = futex_wait_loop ms1 (fst (snd r3)) (snd (snd r3)) s1"
      by (simp only: unf c1 c2 if_False)
    have "snd (futex_wait_loop ms c obs s) = s\<lparr>trace := trace s @ (evs1 @ evs2)\<rparr>"
      by (simp add: rec evs2(1)) (simp add: evs1(1))
    moreover have "list_all is_futex_wait (evs1 @ evs2)"
      using evs1(2) evs2(2) by simp
    moreover have "fst (futex_wait_loop ms c obs s)
        \<longrightarrow> evs1 @ evs2 \<noteq> [] \<and> futex_failed (last (evs1 @ evs2))"
      using evs2(3) by (simp add: rec)
    moreover have "\<not> fst (futex_wait_loop ms c obs s)
        \<longrightarrow> list_all (\<lambda>e. \<not> futex_failed e) (evs1 @ evs2)"
      using evs1(4) evs2(4) c1 by (simp add: rec)
    ultimately show ?thesis by blast
  qed
qed

lemma alloc_state:
  "snd (sgx_alloc_on_ustack_aligned sz al s) = s\<lparr>ustack := ustack (snd (sgx_alloc_on_ustack_aligned sz al s))\<rparr>"
  by (simp add: sgx_alloc_on_ustack_aligned_def Let_def)

text \<open>
  What \<open>sgx_exitless_ocall\<close> does to the state: it moves the stack pointer, it may fault,
  and it appends the request (served by either path, answered by the host) and then futex
  waits only. It returns the host's answer when no futex wait has failed, and \<open>-EPERM\<close>
  after a failed futex wait, which is then the last event.
\<close>

lemma store_via_state: "store_via p s = s\<lparr>faulted := faulted (store_via p s)\<rparr>"
  by (simp add: store_via_def)

lemma store_via_nonnull [simp]: "p \<noteq> 0 \<Longrightarrow> store_via p s = s"
  by (simp add: store_via_def)

lemma exitless_shape:
  fixes code ms s
  defines "h \<equiv> host s (trace s) code ms"
  defines "R \<equiv> sgx_exitless_ocall code ms s"
  shows "\<exists>u f ev evs. snd R = s\<lparr>ustack := u, trace := trace s @ ev # evs, faulted := f\<rparr>
     \<and> (ev = Direct code ms (fst h) (snd h) \<or> ev = Exitless code ms (fst h) (snd h))
     \<and> list_all is_futex_wait evs
     \<and> snd (fst R) = snd h
     \<and> (fst (fst R) = fst h \<and> list_all (\<lambda>e. \<not> futex_failed e) evs
         \<or> fst (fst R) = - EPERM \<and> evs \<noteq> [] \<and> futex_failed (last evs))"
proof -
  define a where "a = sgx_alloc_on_ustack_aligned (sizeof s T_rpc_request) (alignof s T_rpc_request) s"
  define s1 where "s1 = store_via (fst a) (snd a)"
  define sched where "sched = rpc s1 (trace s1)"
  define h1 where "h1 = host s1 (trace s1) code ms"
  define s2 where "s2 = s1\<lparr>trace := trace s1 @ [Exitless code ms (fst h1) (snd h1)]\<rparr>"
  define r1 where "r1 = spinlock_cmpxchg SPINLOCK_UNLOCKED SPINLOCK_LOCKED_NO_WAITERS (lock_obs sched)"
  define b where "b = sgx_alloc_on_ustack_aligned (sizeof s2 (T_ms OCALL_FUTEX)) (alignof s2 (T_ms OCALL_FUTEX)) s2"
  define s3 where "s3 = store_via (fst b) (snd b)"
  define L where "L = futex_wait_loop (ms_blank\<lparr>ms_futex := fst a, ms_op := FUTEX_WAIT_PRIVATE, ms_timeout_us := - 1\<rparr>) (fst (snd r1)) (snd (snd r1)) s3"
  have unf: "R = (if \<not> g_rpc_queue s then sgx_ocall code ms s
      else if queue_full sched then sgx_ocall code ms s1
      else if spin_timedout sched \<and> \<not> fst r1 then ((if fst L then - EPERM else fst h1, snd h1), snd L)
      else (h1, s2))"
    unfolding R_def sgx_exitless_ocall_def L_def s3_def b_def r1_def s2_def h1_def sched_def s1_def a_def
    by (simp add: Let_def split_def)
  have s1: "s1 = s\<lparr>ustack := ustack s1, faulted := faulted s1\<rparr>"
    unfolding s1_def a_def
    by (simp add: store_via_def sgx_alloc_on_ustack_aligned_def Let_def)
  have tr1: "trace s1 = trace s" "host s1 = host s" "rpc s1 = rpc s"
    by (subst s1, simp)+
  have h1: "h1 = h" by (simp add: h1_def h_def tr1)
  have s2: "s2 = s\<lparr>ustack := ustack s1, trace := trace s @ [Exitless code ms (fst h) (snd h)],
                 faulted := faulted s1\<rparr>"
    unfolding s2_def h1 by (subst s1) (simp add: tr1)
  have s3': "s3 = s2\<lparr>ustack := ustack s3, faulted := faulted s3\<rparr>"
    unfolding s3_def b_def
    by (simp add: store_via_def sgx_alloc_on_ustack_aligned_def Let_def)
  have s3: "s3 = s\<lparr>ustack := ustack s3, trace := trace s @ [Exitless code ms (fst h) (snd h)],
                 faulted := faulted s3\<rparr>"
    by (subst s3') (simp add: s2)
  show ?thesis
  proof (cases "g_rpc_queue s")
    case False
    then have "R = sgx_ocall code ms s" by (simp add: unf)
    then show ?thesis
      apply (simp add: sgx_ocall_state sgx_ocall_result h_def)
      apply (rule exI[of _ "ustack s"], rule exI[of _ "faulted s"],
             rule exI[of _ "Direct code ms (fst (host s (trace s) code ms)) (snd (host s (trace s) code ms))"],
             rule exI[of _ "[]"])
      apply simp
      done
  next
    case q: True
    show ?thesis
    proof (cases "queue_full sched")
      case True
      then have "R = sgx_ocall code ms s1"
        using q by (simp add: unf)
      then show ?thesis
        apply (simp add: sgx_ocall_state sgx_ocall_result h_def tr1)
        apply (rule exI[of _ "ustack s1"], rule exI[of _ "faulted s1"],
               rule exI[of _ "Direct code ms (fst (host s (trace s) code ms)) (snd (host s (trace s) code ms))"],
               rule exI[of _ "[]"])
        apply (subst s1) apply (simp add: tr1)
        done
    next
      case nf: False
      show ?thesis
      proof (cases "spin_timedout sched \<and> \<not> fst r1")
        case False
        then have "R = (h, s2)"
          using q nf by (auto simp add: unf h1)
        then show ?thesis
          apply (simp add: s2)
          apply (rule exI[of _ "ustack s1"], rule exI[of _ "faulted s1"],
                 rule exI[of _ "Exitless code ms (fst h) (snd h)"], rule exI[of _ "[]"])
          apply simp
          done
      next
        case True
        have Req: "R = ((if fst L then - EPERM else fst h, snd h), snd L)"
          using q nf True by (simp add: unf h1)
        obtain evs where evs: "snd L = s3\<lparr>trace := trace s3 @ evs\<rparr>" "list_all is_futex_wait evs"
            "fst L \<longrightarrow> evs \<noteq> [] \<and> futex_failed (last evs)"
            "\<not> fst L \<longrightarrow> list_all (\<lambda>e. \<not> futex_failed e) evs"
          unfolding L_def using futex_wait_loop_state by blast
        have "snd L = s\<lparr>ustack := ustack s3, trace := trace s @ Exitless code ms (fst h) (snd h) # evs,
                        faulted := faulted s3\<rparr>"
          unfolding evs(1) by (subst s3, subst (2) s3) simp
        then show ?thesis
          using evs(2,3,4) by (simp add: Req) blast
      qed
    qed
  qed
qed

subsection \<open>Traces and frames\<close>

lemma calls_append [simp]: "calls c (a @ b) = calls c a @ calls c b"
  by (simp add: calls_def)

lemma copies_append [simp]: "copies (a @ b) = copies a @ copies b"
  by (simp add: copies_def)

lemma calls_Nil [simp]: "calls c [] = []" by (simp add: calls_def)
lemma copies_Nil [simp]: "copies [] = []" by (simp add: copies_def)
lemma calls_Cons [simp]: "calls c (e # tr) = call_of c e @ calls c tr" by (simp add: calls_def)
lemma copies_Cons [simp]: "copies (e # tr) = copy_of e @ copies tr" by (simp add: copies_def)

lemma futex_wait_call_of: "is_futex_wait e \<Longrightarrow> c \<noteq> OCALL_FUTEX \<Longrightarrow> call_of c e = []"
  by (cases e) simp_all

lemma futex_wait_copy_of: "is_futex_wait e \<Longrightarrow> copy_of e = []"
  by (cases e) simp_all

lemma futex_waits_calls: "list_all is_futex_wait evs \<Longrightarrow> c \<noteq> OCALL_FUTEX \<Longrightarrow> calls c evs = []"
  by (induction evs) (simp_all add: futex_wait_call_of)

lemma futex_waits_copies: "list_all is_futex_wait evs \<Longrightarrow> copies evs = []"
  by (induction evs) (simp_all add: futex_wait_copy_of)

lemma exitless_state:
  obtains u f ev evs where
    "snd (sgx_exitless_ocall code ms s) = s\<lparr>ustack := u, trace := trace s @ ev # evs, faulted := f\<rparr>"
    "ev = Direct code ms (fst (host s (trace s) code ms)) (snd (host s (trace s) code ms))
       \<or> ev = Exitless code ms (fst (host s (trace s) code ms)) (snd (host s (trace s) code ms))"
    "list_all is_futex_wait evs"
  using exitless_shape[of code ms s] by blast

lemma exitless_frame:
  "enclave_base (snd (sgx_exitless_ocall code ms s)) = enclave_base s"
  "enclave_top (snd (sgx_exitless_ocall code ms s)) = enclave_top s"
  "ustack_top (snd (sgx_exitless_ocall code ms s)) = ustack_top s"
  "ustack_limit (snd (sgx_exitless_ocall code ms s)) = ustack_limit s"
  "sizeof (snd (sgx_exitless_ocall code ms s)) = sizeof s"
  "alignof (snd (sgx_exitless_ocall code ms s)) = alignof s"
  "alloc_align (snd (sgx_exitless_ocall code ms s)) = alloc_align s"
  "g_rpc_queue (snd (sgx_exitless_ocall code ms s)) = g_rpc_queue s"
  "host (snd (sgx_exitless_ocall code ms s)) = host s"
  "rpc (snd (sgx_exitless_ocall code ms s)) = rpc s"
  by (rule exitless_state[of code ms s], simp)+

lemma exitless_copies:
  "copies (trace (snd (sgx_exitless_ocall code ms s))) = copies (trace s)"
  by (rule exitless_state[of code ms s]) (auto simp: futex_waits_copies)

lemma exitless_calls:
  "code \<noteq> OCALL_FUTEX \<Longrightarrow> calls code (trace (snd (sgx_exitless_ocall code ms s)))
     = calls code (trace s) @ [(ms, host s (trace s) code ms)]"
  by (rule exitless_state[of code ms s]) (auto simp: futex_waits_calls)

lemma exitless_calls_other:
  "c \<noteq> OCALL_FUTEX \<Longrightarrow> c \<noteq> code \<Longrightarrow> calls c (trace (snd (sgx_exitless_ocall code ms s)))
     = calls c (trace s)"
  by (rule exitless_state[of code ms s]) (auto simp: futex_waits_calls)

lemma exitless_block:
  "snd (fst (sgx_exitless_ocall code ms s)) = snd (host s (trace s) code ms)"
  using exitless_shape[of code ms s] by blast


lemma alloc_frame [simp]:
  "enclave_base (snd (sgx_alloc_on_ustack_aligned sz al s)) = enclave_base s"
  "enclave_top (snd (sgx_alloc_on_ustack_aligned sz al s)) = enclave_top s"
  "ustack_top (snd (sgx_alloc_on_ustack_aligned sz al s)) = ustack_top s"
  "ustack_limit (snd (sgx_alloc_on_ustack_aligned sz al s)) = ustack_limit s"
  "sizeof (snd (sgx_alloc_on_ustack_aligned sz al s)) = sizeof s"
  "alignof (snd (sgx_alloc_on_ustack_aligned sz al s)) = alignof s"
  "alloc_align (snd (sgx_alloc_on_ustack_aligned sz al s)) = alloc_align s"
  "g_rpc_queue (snd (sgx_alloc_on_ustack_aligned sz al s)) = g_rpc_queue s"
  "host (snd (sgx_alloc_on_ustack_aligned sz al s)) = host s"
  "rpc (snd (sgx_alloc_on_ustack_aligned sz al s)) = rpc s"
  "trace (snd (sgx_alloc_on_ustack_aligned sz al s)) = trace s"
  "faulted (snd (sgx_alloc_on_ustack_aligned sz al s)) = faulted s"
  by (subst alloc_state, simp)+

subsection \<open>The untrusted stack after a call (C1)\<close>

text \<open>
  Claim C1: after every OCALL wrapper the top pointer of the untrusted stack has the value
  it had before the call, also after \<open>ocall_resume_thread\<close> and \<open>ocall_clone_thread\<close>.
  The two wrappers do not call \<open>sgx_reset_ustack\<close>: with an RPC queue, the request that
  \<open>sgx_exitless_ocall\<close> allocates stays on the stack. In \<open>st_rpc\<close> the pointer is 64 bytes
  lower after either call.
\<close>

theorem resume_clone_thread_ustack:
  "ustack st_rpc = 8388608
   \<and> ustack (snd (ocall_resume_thread 1500000 st_rpc)) = 8388544
   \<and> ustack (snd (ocall_clone_thread st_rpc)) = 8388544"
  by (simp add: st_rpc_def st0_def ocall_resume_thread_def ocall_clone_thread_def
      sgx_exitless_ocall_def sgx_alloc_on_ustack_aligned_def
      sgx_is_completely_outside_enclave_def Let_def split_def)

subsection \<open>Fallback to the enclave exit (C5)\<close>

text \<open>
  Claim C5, as stated, fails: with the same host and history, the call with a full queue
  returns the host's answer 0, and the call on the exitless path returns \<open>-EPERM\<close> when
  the futex wait is interrupted.
\<close>

theorem exitless_futex_failure:
  "host st_wait = host st_full \<and> trace st_wait = trace st_full
   \<and> queue_full (rpc st_full (trace st_full)) \<and> \<not> queue_full (rpc st_wait (trace st_wait))
   \<and> fst (fst (sgx_exitless_ocall OCALL_CLOSE (Ms (ms_blank\<lparr>ms_fd := 3\<rparr>)) st_full)) = 0
   \<and> fst (fst (sgx_exitless_ocall OCALL_CLOSE (Ms (ms_blank\<lparr>ms_fd := 3\<rparr>)) st_wait)) = - 1"
  by (simp add: st_wait_def st_full_def st0_def store_via_def
      sgx_exitless_ocall_def sgx_alloc_on_ustack_aligned_def sgx_ocall_def host_eintr_def
      sgx_is_completely_outside_enclave_def Let_def split_def spinlock_cmpxchg_def
      futex_wait_loop.simps SPINLOCK_UNLOCKED_def SPINLOCK_LOCKED_WITH_WAITERS_def
      EINTR_def EAGAIN_def EPERM_def)

text \<open>
  The request is filled in before the queue is tried: with a queue and no room for the
  request on the untrusted stack, the call faults at the store through \<open>NULL\<close>, whatever the
  state of the queue.
\<close>

lemma exitless_null_request:
  "g_rpc_queue s \<Longrightarrow>
   fst (sgx_alloc_on_ustack_aligned (sizeof s T_rpc_request) (alignof s T_rpc_request) s) = 0 \<Longrightarrow>
   faulted (snd (sgx_exitless_ocall code ms s))"
proof -
  assume q: "g_rpc_queue s"
    and n: "fst (sgx_alloc_on_ustack_aligned (sizeof s T_rpc_request) (alignof s T_rpc_request) s) = 0"
  define a where "a = sgx_alloc_on_ustack_aligned (sizeof s T_rpc_request) (alignof s T_rpc_request) s"
  define s1 where "s1 = store_via (fst a) (snd a)"
  define sched where "sched = rpc s1 (trace s1)"
  define h1 where "h1 = host s1 (trace s1) code ms"
  define s2 where "s2 = s1\<lparr>trace := trace s1 @ [Exitless code ms (fst h1) (snd h1)]\<rparr>"
  define r1 where "r1 = spinlock_cmpxchg SPINLOCK_UNLOCKED SPINLOCK_LOCKED_NO_WAITERS (lock_obs sched)"
  define b where "b = sgx_alloc_on_ustack_aligned (sizeof s2 (T_ms OCALL_FUTEX)) (alignof s2 (T_ms OCALL_FUTEX)) s2"
  define s3 where "s3 = store_via (fst b) (snd b)"
  define L where "L = futex_wait_loop (ms_blank\<lparr>ms_futex := fst a, ms_op := FUTEX_WAIT_PRIVATE, ms_timeout_us := - 1\<rparr>) (fst (snd r1)) (snd (snd r1)) s3"
  have unf: "snd (sgx_exitless_ocall code ms s) =
     (if queue_full sched then snd (sgx_ocall code ms s1)
      else if spin_timedout sched \<and> \<not> fst r1 then snd L
      else s2)"
    unfolding sgx_exitless_ocall_def L_def s3_def b_def r1_def s2_def h1_def sched_def s1_def a_def
    using q by (simp add: Let_def split_def)
  have f1: "faulted s1"
    using n by (simp add: s1_def a_def store_via_def)
  then have f2: "faulted s2" by (simp add: s2_def)
  have f3: "faulted s3"
    using f2 by (simp add: s3_def b_def store_via_def sgx_alloc_on_ustack_aligned_def Let_def)
  obtain evs where "snd L = s3\<lparr>trace := trace s3 @ evs\<rparr>"
    unfolding L_def using futex_wait_loop_state by blast
  then have f4: "faulted (snd L)" using f3 by simp
  show ?thesis
    using f1 f2 f4 by (simp add: unf sgx_ocall_state)
qed

text \<open>
  Claim C5, amended: without a queue, or with a full queue once the request has been
  allocated, \<open>sgx_exitless_ocall\<close> is the direct \<open>sgx_ocall\<close>: the one event it adds is the
  enclave exit with this code and argument, it returns the host's answer, and it does not
  fault. A call with the same host and history that runs to its end without a fault,
  whichever path it takes, leaves the same argument block; it returns \<open>-EPERM\<close> when one of
  its futex waits (the events after the request itself) has failed with an error other
  than \<open>EAGAIN\<close>, and the same value when none has.
\<close>

theorem exitless_fallback:
  fixes code ms s s'
  defines "a \<equiv> sgx_alloc_on_ustack_aligned (sizeof s T_rpc_request) (alignof s T_rpc_request) s"
  defines "R \<equiv> sgx_exitless_ocall code ms s"
  defines "R' \<equiv> sgx_exitless_ocall code ms s'"
  assumes "\<not> g_rpc_queue s \<or> queue_full (rpc s (trace s)) \<and> fst a \<noteq> 0"
  shows "R = sgx_ocall code ms (if g_rpc_queue s then snd a else s)
     \<and> fst R = host s (trace s) code ms
     \<and> new_events s (snd R)
         = [Direct code ms (fst (host s (trace s) code ms)) (snd (host s (trace s) code ms))]
     \<and> faulted (snd R) = faulted s
     \<and> (host s' = host s \<and> trace s' = trace s \<and> \<not> faulted (snd R') \<longrightarrow>
          snd (fst R') = snd (fst R)
          \<and> (list_ex futex_failed (tl (new_events s' (snd R'))) \<longrightarrow> fst (fst R') = - EPERM)
          \<and> (\<not> list_ex futex_failed (tl (new_events s' (snd R'))) \<longrightarrow>
                fst (fst R') = fst (fst R)))"
proof -
  have 1: "R = sgx_ocall code ms (if g_rpc_queue s then snd a else s)"
    using assms(4) unfolding R_def a_def
    by (auto simp: sgx_exitless_ocall_def Let_def split_def alloc_frame)
  have 2: "fst R = host s (trace s) code ms"
    by (simp add: 1 sgx_ocall_result alloc_frame a_def)
  have 3: "new_events s (snd R)
         = [Direct code ms (fst (host s (trace s) code ms)) (snd (host s (trace s) code ms))]"
    by (simp add: 1 sgx_ocall_state alloc_frame a_def new_events_def)
  have 4: "faulted (snd R) = faulted s"
    by (simp add: 1 sgx_ocall_state alloc_frame a_def)
  have 5: "snd (fst R') = snd (fst R)
          \<and> (list_ex futex_failed (tl (new_events s' (snd R'))) \<longrightarrow> fst (fst R') = - EPERM)
          \<and> (\<not> list_ex futex_failed (tl (new_events s' (snd R'))) \<longrightarrow>
                fst (fst R') = fst (fst R))"
    if same: "host s' = host s" "trace s' = trace s"
  proof -
    from exitless_shape[of code ms s'] obtain u f ev evs where
      st: "snd R' = s'\<lparr>ustack := u, trace := trace s' @ ev # evs, faulted := f\<rparr>"
      and blk: "snd (fst R') = snd (host s' (trace s') code ms)"
      and ret: "fst (fst R') = fst (host s' (trace s') code ms)
                  \<and> list_all (\<lambda>e. \<not> futex_failed e) evs
         \<or> fst (fst R') = - EPERM \<and> evs \<noteq> [] \<and> futex_failed (last evs)"
      unfolding R'_def by blast
    have tl: "tl (new_events s' (snd R')) = evs"
      by (simp add: st new_events_def)
    have a: "list_ex futex_failed evs \<Longrightarrow> \<not> list_all (\<lambda>e. \<not> futex_failed e) evs"
      by (auto simp: list_ex_iff list_all_iff)
    have b: "evs \<noteq> [] \<Longrightarrow> futex_failed (last evs) \<Longrightarrow> list_ex futex_failed evs"
      by (auto simp: list_ex_iff intro: bexI[of _ "last evs"])
    from blk ret a b show ?thesis
      by (auto simp: 2 same tl)
  qed
  from 1 2 3 4 5 show ?thesis by blast
qed

theorem exitless_fallback_witness:
  "queue_full (rpc st_full (trace st_full))
   \<and> fst (sgx_alloc_on_ustack_aligned (sizeof st_full T_rpc_request)
            (alignof st_full T_rpc_request) st_full) = 8388544
   \<and> fst (sgx_exitless_ocall OCALL_CLOSE (Ptr 0) st_full) = (0, ms_blank)
   \<and> new_events st_full (snd (sgx_exitless_ocall OCALL_CLOSE (Ptr 0) st_full))
       = [Direct OCALL_CLOSE (Ptr 0) 0 ms_blank]
   \<and> host st_wait = host st_full \<and> trace st_wait = trace st_full
   \<and> \<not> faulted (snd (sgx_exitless_ocall OCALL_CLOSE (Ptr 0) st_wait))
   \<and> list_ex futex_failed (tl (new_events st_wait (snd (sgx_exitless_ocall OCALL_CLOSE (Ptr 0) st_wait))))
   \<and> fst (sgx_exitless_ocall OCALL_CLOSE (Ptr 0) st_wait) = (- EPERM, ms_blank)
   \<and> host st_spin = host st_full \<and> trace st_spin = trace st_full
   \<and> \<not> faulted (snd (sgx_exitless_ocall OCALL_CLOSE (Ptr 0) st_spin))
   \<and> \<not> list_ex futex_failed (tl (new_events st_spin (snd (sgx_exitless_ocall OCALL_CLOSE (Ptr 0) st_spin))))
   \<and> fst (sgx_exitless_ocall OCALL_CLOSE (Ptr 0) st_spin) = (0, ms_blank)"
proof -
  have a: "queue_full (rpc st_full (trace st_full))"
    by (simp add: st_full_def)
  have n: "fst (sgx_alloc_on_ustack_aligned (sizeof st_full T_rpc_request)
            (alignof st_full T_rpc_request) st_full) = 8388544"
    by (simp add: st_full_def st0_def sgx_alloc_on_ustack_aligned_def
        sgx_is_completely_outside_enclave_def Let_def)
  have b: "host st_wait = host st_full" "trace st_wait = trace st_full"
    "host st_spin = host st_full" "trace st_spin = trace st_full"
    by (simp_all add: st_full_def st_wait_def st_spin_def)
  have c: "host st_full (trace st_full) OCALL_CLOSE (Ptr 0) = (0, ms_blank)"
    by (simp add: st_full_def host_eintr_def)
  have w: "\<not> faulted (snd (sgx_exitless_ocall OCALL_CLOSE (Ptr 0) st_wait))"
    "list_ex futex_failed (tl (new_events st_wait (snd (sgx_exitless_ocall OCALL_CLOSE (Ptr 0) st_wait))))"
    by (simp_all add: st_wait_def st0_def store_via_def new_events_def
      sgx_exitless_ocall_def sgx_alloc_on_ustack_aligned_def sgx_ocall_def host_eintr_def
      sgx_is_completely_outside_enclave_def Let_def split_def spinlock_cmpxchg_def
      futex_wait_loop.simps SPINLOCK_UNLOCKED_def SPINLOCK_LOCKED_WITH_WAITERS_def
      EINTR_def EAGAIN_def EPERM_def)
  have p: "\<not> faulted (snd (sgx_exitless_ocall OCALL_CLOSE (Ptr 0) st_spin))"
    "\<not> list_ex futex_failed (tl (new_events st_spin (snd (sgx_exitless_ocall OCALL_CLOSE (Ptr 0) st_spin))))"
    by (simp_all add: st_spin_def st0_def store_via_def new_events_def
      sgx_exitless_ocall_def sgx_alloc_on_ustack_aligned_def sgx_ocall_def host_eintr_def
      sgx_is_completely_outside_enclave_def Let_def split_def)
  have h: "\<not> g_rpc_queue st_full
      \<or> queue_full (rpc st_full (trace st_full))
        \<and> fst (sgx_alloc_on_ustack_aligned (sizeof st_full T_rpc_request)
            (alignof st_full T_rpc_request) st_full) \<noteq> 0"
    using a n by simp
  show ?thesis
    using exitless_fallback[where s = st_full and s' = st_wait and code = OCALL_CLOSE
            and ms = "Ptr 0", OF h]
      exitless_fallback[where s = st_full and s' = st_spin and code = OCALL_CLOSE
            and ms = "Ptr 0", OF h]
      a n b c w p
    by (simp add: prod_eq_iff)
qed

subsection \<open>Exit (C6)\<close>

text \<open>
  The loop of \<open>ocall_exit\<close>: after \<open>n\<close> rounds it is still in the loop, and what it has added
  to the history is \<open>n\<close> enclave exits with \<open>OCALL_EXIT\<close>, the first with the block it was
  given and each next with the block the host has left.
\<close>

lemma exit_loop_run:
  "\<exists>cs. ocall_exit_loop n ms s = Looping (s\<lparr>trace := trace s @ map exit_event cs\<rparr>)
      \<and> length cs = n \<and> exit_chain (Ms ms) cs"
proof (induction n arbitrary: ms s)
  case 0
  show ?case by (rule exI[of _ "[]"]) simp
next
  case (Suc n)
  define r where "r = fst (host s (trace s) OCALL_EXIT (Ms ms))"
  define ms1 where "ms1 = snd (host s (trace s) OCALL_EXIT (Ms ms))"
  define s1 where "s1 = s\<lparr>trace := trace s @ [Direct OCALL_EXIT (Ms ms) r ms1]\<rparr>"
  have step: "ocall_exit_loop (Suc n) ms s = ocall_exit_loop n ms1 s1"
    by (simp add: sgx_ocall_state sgx_ocall_result r_def ms1_def s1_def)
  from Suc[of ms1 s1] obtain cs where cs:
    "ocall_exit_loop n ms1 s1 = Looping (s1\<lparr>trace := trace s1 @ map exit_event cs\<rparr>)"
    "length cs = n" "exit_chain (Ms ms1) cs"
    by blast
  show ?case
    apply (rule exI[of _ "(Ms ms, r, ms1) # cs"])
    apply (simp only: step cs(1))
    apply (simp add: cs s1_def)
    done
qed

text \<open>
  Claim C6: \<open>ocall_exit\<close> never returns to its caller, whatever its arguments, whatever the
  host answers and however many rounds are run; when its argument block has been
  allocated, \<open>n\<close> rounds of its loop have issued \<open>n\<close> enclave exits with \<open>OCALL_EXIT\<close> and
  nothing else, the first with the exit code and the group flag it was called with, each
  next one with the block as the host has left it.
\<close>

theorem ocall_exit_never_returns:
  fixes n exitcode is_exitgroup s
  defines "ms \<equiv> fst (sgx_alloc_on_ustack_aligned
                        (sizeof s (T_ms OCALL_EXIT)) (alignof s (T_ms OCALL_EXIT)) s)"
  shows "(\<forall>s'. ocall_exit n exitcode is_exitgroup s \<noteq> Returned s')
     \<and> (ms \<noteq> 0 \<longrightarrow>
          (\<exists>s' cs. ocall_exit n exitcode is_exitgroup s = Looping s'
              \<and> trace s' = trace s @ map exit_event cs
              \<and> length cs = n
              \<and> exit_chain (Ms (ms_blank\<lparr>ms_exitcode := exitcode,
                                   ms_is_exitgroup := is_exitgroup\<rparr>)) cs
              \<and> faulted s' = faulted s))"
proof -
  define a where "a = sgx_alloc_on_ustack_aligned
                        (sizeof s (T_ms OCALL_EXIT)) (alignof s (T_ms OCALL_EXIT)) s"
  define s1 where "s1 = store_via (fst a) (snd a)"
  have unf: "ocall_exit n exitcode is_exitgroup s
      = ocall_exit_loop n (ocall_exit_ms exitcode is_exitgroup) s1"
    by (simp add: ocall_exit_def s1_def a_def split_def Let_def)
  from exit_loop_run[of n "ocall_exit_ms exitcode is_exitgroup" s1] obtain cs where cs:
    "ocall_exit_loop n (ocall_exit_ms exitcode is_exitgroup) s1
       = Looping (s1\<lparr>trace := trace s1 @ map exit_event cs\<rparr>)"
    "length cs = n" "exit_chain (Ms (ocall_exit_ms exitcode is_exitgroup)) cs"
    by blast
  have 1: "\<forall>s'. ocall_exit n exitcode is_exitgroup s \<noteq> Returned s'"
    by (simp add: unf cs(1))
  have 2: "\<exists>s' cs. ocall_exit n exitcode is_exitgroup s = Looping s'
              \<and> trace s' = trace s @ map exit_event cs
              \<and> length cs = n
              \<and> exit_chain (Ms (ms_blank\<lparr>ms_exitcode := exitcode,
                                   ms_is_exitgroup := is_exitgroup\<rparr>)) cs
              \<and> faulted s' = faulted s"
    if "ms \<noteq> 0"
  proof -
    from that have "s1 = snd a"
      by (simp add: s1_def ms_def a_def)
    then have f: "trace s1 = trace s" "faulted s1 = faulted s"
      by (simp_all add: a_def alloc_frame)
    show ?thesis
      apply (rule exI[of _ "s1\<lparr>trace := trace s1 @ map exit_event cs\<rparr>"], rule exI[of _ cs])
      using cs f by (simp add: unf ocall_exit_ms_def)
  qed
  from 1 2 show ?thesis by blast
qed

theorem ocall_exit_never_returns_witness:
  "fst (sgx_alloc_on_ustack_aligned
          (sizeof st0 (T_ms OCALL_EXIT)) (alignof st0 (T_ms OCALL_EXIT)) st0) = 8388544
   \<and> (\<exists>s' cs. ocall_exit 3 7 0 st0 = Looping s'
         \<and> trace s' = trace st0 @ map exit_event cs
         \<and> length cs = 3
         \<and> exit_chain (Ms (ms_blank\<lparr>ms_exitcode := 7, ms_is_exitgroup := 0\<rparr>)) cs
         \<and> faulted s' = faulted st0)"
proof -
  have n: "fst (sgx_alloc_on_ustack_aligned
          (sizeof st0 (T_ms OCALL_EXIT)) (alignof st0 (T_ms OCALL_EXIT)) st0) = 8388544"
    by (simp add: st0_def sgx_alloc_on_ustack_aligned_def
        sgx_is_completely_outside_enclave_def Let_def)
  show ?thesis
    using ocall_exit_never_returns[where s = st0 and n = 3 and exitcode = 7 and is_exitgroup = 0] n
    by simp
qed

subsection \<open>Rejected arguments (C9)\<close>

text \<open>
  Claim C9: \<open>ocall_munmap_untrusted\<close> returns \<open>-EINVAL\<close> and dispatches nothing when the
  region is not entirely outside the enclave, and so does \<open>ocall_futex\<close> when the futex
  word (an \<open>int\<close>, 4 bytes) is not entirely outside.
\<close>

theorem munmap_futex_reject_inside:
  "(\<not> sgx_is_completely_outside_enclave mem sz s \<longrightarrow>
      fst (ocall_munmap_untrusted mem sz s) = - EINVAL
      \<and> trace (snd (ocall_munmap_untrusted mem sz s)) = trace s)
   \<and> (\<not> sgx_is_completely_outside_enclave futex 4 s \<longrightarrow>
      fst (ocall_futex futex op val timeout_us s) = - EINVAL
      \<and> trace (snd (ocall_futex futex op val timeout_us s)) = trace s)"
  by (simp add: ocall_munmap_untrusted_def ocall_futex_def sgx_reset_ustack_def)

theorem munmap_futex_reject_inside_witness:
  "\<not> sgx_is_completely_outside_enclave 1048000 4096 st0
   \<and> fst (ocall_munmap_untrusted 1048000 4096 st0) = - 22
   \<and> trace (snd (ocall_munmap_untrusted 1048000 4096 st0)) = []
   \<and> \<not> sgx_is_completely_outside_enclave 1500000 4 st0
   \<and> fst (ocall_futex 1500000 0 1 (- 1) st0) = - 22
   \<and> trace (snd (ocall_futex 1500000 0 1 (- 1) st0)) = []"
proof -
  have a: "\<not> sgx_is_completely_outside_enclave 1048000 4096 st0"
    by (simp add: sgx_is_completely_outside_enclave_def st0_def)
  have b: "\<not> sgx_is_completely_outside_enclave 1500000 4 st0"
    by (simp add: sgx_is_completely_outside_enclave_def st0_def)
  have t: "trace st0 = []" by (simp add: st0_def)
  show ?thesis
    using munmap_futex_reject_inside[of 1048000 4096 st0 1500000 0 1 "- 1"] a b t
    by (simp add: EINVAL_def)
qed

subsection \<open>Sleep (C10)\<close>

text \<open>
  Claim C10: with a non-null \<open>microsec\<close>, \<open>ocall_sleep\<close> stores 0 when it returns 0, the
  remaining time reported by the host when it returns \<open>-EINTR\<close>, and leaves the cell
  unchanged for any other return value.
\<close>

theorem ocall_sleep_microsec:
  assumes "ocall_sleep (Some v) s = ((retval, m'), s')"
  shows "(retval = 0 \<longrightarrow> m' = Some 0)
   \<and> (retval = - EINTR \<longrightarrow>
        (\<exists>arg ms'. trace s' = trace s @ [Direct OCALL_SLEEP arg retval ms']
           \<and> m' = Some (ms_microsec ms')))
   \<and> (retval \<noteq> 0 \<and> retval \<noteq> - EINTR \<longrightarrow> m' = Some v)"
proof -
  define a where "a = sgx_alloc_on_ustack_aligned
                       (sizeof s (T_ms OCALL_SLEEP)) (alignof s (T_ms OCALL_SLEEP)) s"
  define arg where "arg = Ms (ms_blank\<lparr>ms_microsec := v\<rparr>)"
  define h where "h = host (snd a) (trace (snd a)) OCALL_SLEEP arg"
  have unf: "ocall_sleep (Some v) s =
     (if fst a = 0 then ((- EPERM, Some v), sgx_reset_ustack (snd a))
      else ((fst h, if fst h = 0 then Some 0
                    else if fst h = - EINTR then Some (ms_microsec (snd h)) else Some v),
            sgx_reset_ustack (snd (sgx_ocall OCALL_SLEEP arg (snd a)))))"
    unfolding ocall_sleep_def a_def h_def arg_def
    by (simp add: Let_def split_def sgx_ocall_result)
  show ?thesis
  proof (cases "fst a = 0")
    case True
    with assms unf have "retval = - EPERM" "m' = Some v" by simp_all
    then show ?thesis by (simp add: EPERM_def EINTR_def)
  next
    case False
    from unf False have "ocall_sleep (Some v) s = ((fst h, if fst h = 0 then Some 0
                    else if fst h = - EINTR then Some (ms_microsec (snd h)) else Some v),
            sgx_reset_ustack (snd (sgx_ocall OCALL_SLEEP arg (snd a))))"
      by (simp only: if_False)
    with assms have r: "retval = fst h"
      and m: "m' = (if fst h = 0 then Some 0
                    else if fst h = - EINTR then Some (ms_microsec (snd h)) else Some v)"
      and s': "s' = sgx_reset_ustack (snd (sgx_ocall OCALL_SLEEP arg (snd a)))"
      by auto
    have "trace s' = trace s @ [Direct OCALL_SLEEP arg retval (snd h)]"
      by (simp add: s' sgx_reset_ustack_def sgx_ocall_state r h_def a_def)
    then show ?thesis using r m by (auto simp: EINTR_def)
  qed
qed

theorem ocall_sleep_microsec_witness:
  "fst (ocall_sleep (Some 5) st_sleep_ok) = (0, Some 0)
   \<and> fst (ocall_sleep (Some 5) st_sleep_eintr) = (- EINTR, Some 3)
   \<and> fst (ocall_sleep (Some 5) st_sleep_einval) = (- EINVAL, Some 5)"
proof -
  have run: "ocall_sleep (Some 5) (st0\<lparr>host := host_const r f\<rparr>)
      = ((r, snd (fst (ocall_sleep (Some 5) (st0\<lparr>host := host_const r f\<rparr>)))),
         snd (ocall_sleep (Some 5) (st0\<lparr>host := host_const r f\<rparr>)))
    \<and> trace (snd (ocall_sleep (Some 5) (st0\<lparr>host := host_const r f\<rparr>)))
      = [Direct OCALL_SLEEP (Ms (ms_blank\<lparr>ms_microsec := 5\<rparr>)) r
           (f (ms_blank\<lparr>ms_microsec := 5\<rparr>))]" for r f
    by (simp add: ocall_sleep_def st0_def sgx_alloc_on_ustack_aligned_def Let_def
        sgx_is_completely_outside_enclave_def sgx_ocall_def host_const_def
        sgx_reset_ustack_def)
  have res: "fst (ocall_sleep (Some 5) (st0\<lparr>host := host_const r f\<rparr>)) = (r, m)"
    if "snd (fst (ocall_sleep (Some 5) (st0\<lparr>host := host_const r f\<rparr>))) = m" for r f m
    using that run[THEN conjunct1, of r f] by (metis fst_conv)
  have 1: "fst (ocall_sleep (Some 5) st_sleep_ok) = (0, Some 0)"
    unfolding st_sleep_ok_def
    using ocall_sleep_microsec[OF run[THEN conjunct1, of 0 "\<lambda>m. m"]]
    by (intro res) simp
  have 2: "fst (ocall_sleep (Some 5) st_sleep_eintr) = (- EINTR, Some 3)"
    unfolding st_sleep_eintr_def
    using ocall_sleep_microsec[OF run[THEN conjunct1, of "- EINTR" "\<lambda>m. m\<lparr>ms_microsec := 3\<rparr>"]]
      run[THEN conjunct2, of "- EINTR" "\<lambda>m. m\<lparr>ms_microsec := 3\<rparr>"]
    by (intro res) (simp add: st0_def)
  have 3: "fst (ocall_sleep (Some 5) st_sleep_einval) = (- EINVAL, Some 5)"
    unfolding st_sleep_einval_def
    using ocall_sleep_microsec[OF run[THEN conjunct1, of "- EINVAL" "\<lambda>m. m"]]
    by (intro res) (simp add: EINVAL_def EINTR_def)
  from 1 2 3 show ?thesis by blast
qed

subsection \<open>Frames of the wrappers\<close>

declare exitless_frame [simp] exitless_copies [simp] exitless_block [simp]
  exitless_calls [simp] exitless_calls_other [simp]

lemma reset_frame [simp]:
  "enclave_base (sgx_reset_ustack s) = enclave_base s"
  "enclave_top (sgx_reset_ustack s) = enclave_top s"
  "ustack (sgx_reset_ustack s) = ustack_top s"
  "ustack_top (sgx_reset_ustack s) = ustack_top s"
  "ustack_limit (sgx_reset_ustack s) = ustack_limit s"
  "sizeof (sgx_reset_ustack s) = sizeof s"
  "alignof (sgx_reset_ustack s) = alignof s"
  "alloc_align (sgx_reset_ustack s) = alloc_align s"
  "g_rpc_queue (sgx_reset_ustack s) = g_rpc_queue s"
  "host (sgx_reset_ustack s) = host s"
  "rpc (sgx_reset_ustack s) = rpc s"
  "trace (sgx_reset_ustack s) = trace s"
  by (simp_all add: sgx_reset_ustack_def)


lemma outside_cong:
  "enclave_base s' = enclave_base s \<Longrightarrow> enclave_top s' = enclave_top s \<Longrightarrow>
     sgx_is_completely_outside_enclave p n s' = sgx_is_completely_outside_enclave p n s"
  by (simp add: sgx_is_completely_outside_enclave_def)

lemma ALLOC_ALIGNUP_cong:
  "alloc_align s' = alloc_align s \<Longrightarrow> ALLOC_ALIGNUP s' n = ALLOC_ALIGNUP s n"
  by (simp add: ALLOC_ALIGNUP_def)

lemma munmap_frame [simp]:
  "enclave_base (snd (ocall_munmap_untrusted mem sz s)) = enclave_base s"
  "enclave_top (snd (ocall_munmap_untrusted mem sz s)) = enclave_top s"
  "ustack (snd (ocall_munmap_untrusted mem sz s)) = ustack_top s"
  "ustack_top (snd (ocall_munmap_untrusted mem sz s)) = ustack_top s"
  "ustack_limit (snd (ocall_munmap_untrusted mem sz s)) = ustack_limit s"
  "sizeof (snd (ocall_munmap_untrusted mem sz s)) = sizeof s"
  "alignof (snd (ocall_munmap_untrusted mem sz s)) = alignof s"
  "alloc_align (snd (ocall_munmap_untrusted mem sz s)) = alloc_align s"
  "g_rpc_queue (snd (ocall_munmap_untrusted mem sz s)) = g_rpc_queue s"
  "host (snd (ocall_munmap_untrusted mem sz s)) = host s"
  "rpc (snd (ocall_munmap_untrusted mem sz s)) = rpc s"
  "copies (trace (snd (ocall_munmap_untrusted mem sz s))) = copies (trace s)"
  by (simp_all add: ocall_munmap_untrusted_def Let_def split_def)

lemma munmap_calls [simp]:
  "c \<noteq> OCALL_FUTEX \<Longrightarrow> c \<noteq> OCALL_MUNMAP_UNTRUSTED \<Longrightarrow>
     calls c (trace (snd (ocall_munmap_untrusted mem sz s))) = calls c (trace s)"
  by (simp add: ocall_munmap_untrusted_def Let_def split_def)

lemma mmap_frame [simp]:
  "enclave_base (snd (ocall_mmap_untrusted fd off sz prot mem s)) = enclave_base s"
  "enclave_top (snd (ocall_mmap_untrusted fd off sz prot mem s)) = enclave_top s"
  "ustack (snd (ocall_mmap_untrusted fd off sz prot mem s)) = ustack_top s"
  "ustack_top (snd (ocall_mmap_untrusted fd off sz prot mem s)) = ustack_top s"
  "ustack_limit (snd (ocall_mmap_untrusted fd off sz prot mem s)) = ustack_limit s"
  "sizeof (snd (ocall_mmap_untrusted fd off sz prot mem s)) = sizeof s"
  "alignof (snd (ocall_mmap_untrusted fd off sz prot mem s)) = alignof s"
  "alloc_align (snd (ocall_mmap_untrusted fd off sz prot mem s)) = alloc_align s"
  "g_rpc_queue (snd (ocall_mmap_untrusted fd off sz prot mem s)) = g_rpc_queue s"
  "host (snd (ocall_mmap_untrusted fd off sz prot mem s)) = host s"
  "rpc (snd (ocall_mmap_untrusted fd off sz prot mem s)) = rpc s"
  "copies (trace (snd (ocall_mmap_untrusted fd off sz prot mem s))) = copies (trace s)"
  by (simp_all add: ocall_mmap_untrusted_def Let_def split_def)

lemma mmap_calls [simp]:
  "c \<noteq> OCALL_FUTEX \<Longrightarrow> c \<noteq> OCALL_MMAP_UNTRUSTED \<Longrightarrow>
     calls c (trace (snd (ocall_mmap_untrusted fd off sz prot mem s))) = calls c (trace s)"
  by (simp add: ocall_mmap_untrusted_def Let_def split_def)

text \<open>A buffer that \<open>ocall_mmap_untrusted\<close> hands back lies entirely outside the enclave.\<close>

lemma mmap_buffer_outside:
  "fst (fst (ocall_mmap_untrusted fd off sz prot 0 s)) = 0 \<Longrightarrow>
     sgx_is_completely_outside_enclave (snd (fst (ocall_mmap_untrusted fd off sz prot 0 s))) sz s"
  by (auto simp: ocall_mmap_untrusted_def Let_def split_def sgx_copy_ptr_to_enclave_def EPERM_def
        outside_cong[of "snd (sgx_exitless_ocall _ _ _)"] split: if_splits)

lemma alloc1_frame [simp]:
  "enclave_base (snd (sgx_alloc_on_ustack sz s)) = enclave_base s"
  "enclave_top (snd (sgx_alloc_on_ustack sz s)) = enclave_top s"
  "ustack_top (snd (sgx_alloc_on_ustack sz s)) = ustack_top s"
  "ustack_limit (snd (sgx_alloc_on_ustack sz s)) = ustack_limit s"
  "sizeof (snd (sgx_alloc_on_ustack sz s)) = sizeof s"
  "alignof (snd (sgx_alloc_on_ustack sz s)) = alignof s"
  "alloc_align (snd (sgx_alloc_on_ustack sz s)) = alloc_align s"
  "g_rpc_queue (snd (sgx_alloc_on_ustack sz s)) = g_rpc_queue s"
  "host (snd (sgx_alloc_on_ustack sz s)) = host s"
  "rpc (snd (sgx_alloc_on_ustack sz s)) = rpc s"
  "trace (snd (sgx_alloc_on_ustack sz s)) = trace s"
  by (simp_all add: sgx_alloc_on_ustack_def)

lemma copy_in_frame [simp]:
  "enclave_base (snd (sgx_copy_to_enclave p m u n s)) = enclave_base s"
  "enclave_top (snd (sgx_copy_to_enclave p m u n s)) = enclave_top s"
  "ustack (snd (sgx_copy_to_enclave p m u n s)) = ustack s"
  "ustack_top (snd (sgx_copy_to_enclave p m u n s)) = ustack_top s"
  "ustack_limit (snd (sgx_copy_to_enclave p m u n s)) = ustack_limit s"
  "sizeof (snd (sgx_copy_to_enclave p m u n s)) = sizeof s"
  "alignof (snd (sgx_copy_to_enclave p m u n s)) = alignof s"
  "alloc_align (snd (sgx_copy_to_enclave p m u n s)) = alloc_align s"
  "g_rpc_queue (snd (sgx_copy_to_enclave p m u n s)) = g_rpc_queue s"
  "host (snd (sgx_copy_to_enclave p m u n s)) = host s"
  "rpc (snd (sgx_copy_to_enclave p m u n s)) = rpc s"
  "calls c (trace (snd (sgx_copy_to_enclave p m u n s))) = calls c (trace s)"
  by (simp_all add: sgx_copy_to_enclave_def)

lemma read_out_simps [simp]:
  "fst (ocall_read_out obuf cnt r s) = r"
  "copies (trace (snd (ocall_read_out obuf cnt r s))) = copies (trace s)"
  "c \<noteq> OCALL_FUTEX \<Longrightarrow> c \<noteq> OCALL_MUNMAP_UNTRUSTED \<Longrightarrow>
     calls c (trace (snd (ocall_read_out obuf cnt r s))) = calls c (trace s)"
  "enclave_base (snd (ocall_read_out obuf cnt r s)) = enclave_base s"
  "enclave_top (snd (ocall_read_out obuf cnt r s)) = enclave_top s"
  "ustack (snd (ocall_read_out obuf cnt r s)) = ustack_top s"
  by (simp_all add: ocall_read_out_def Let_def)

lemma read_out_null [simp]:
  "trace (snd (ocall_read_out 0 cnt r s)) = trace s"
  by (simp add: ocall_read_out_def Let_def)

lemma read_out_munmap:
  "obuf \<noteq> 0 \<Longrightarrow> snd (ocall_read_out obuf cnt r s)
     = snd (ocall_munmap_untrusted obuf (ALLOC_ALIGNUP s cnt) (sgx_reset_ustack s))"
  by (simp add: ocall_read_out_def Let_def ALLOC_ALIGNUP_cong[of "sgx_reset_ustack s" s])


subsection \<open>Read\<close>



lemma ALLOC_ALIGNUP_reset [simp]: "ALLOC_ALIGNUP (sgx_reset_ustack s) n = ALLOC_ALIGNUP s n"
  by (simp add: ALLOC_ALIGNUP_def)






subsection \<open>Straddling buffers (C2)\<close>




subsection \<open>Large reads (C7)\<close>



end
